theory Spec2Isabelle
  imports Complex_Main
begin

section \<open>Tensors and the library primitives used by \<open>layers.py\<close>\<close>

text \<open>
  The two classes of \<open>layers.py\<close> call these primitives of torch and of its sparse
  companion library: \<open>torch.max\<close>, \<open>spmm\<close>, \<open>torch.mm\<close>, broadcasting
  \<open>+\<close>, \<open>dropout\<close>, \<open>relu\<close> and \<open>xavier_uniform_\<close>. They are modelled
  here on two-dimensional tensors, after the libraries' own definitions.
  Entries are real numbers: rounding of floating point is not modelled. Every failure of a
  primitive is a value of \<open>error\<close>, named after its cause.
\<close>

datatype error =
    DimensionMismatch
  | IndexOutOfRange
  | EmptyReduction
  | InvalidDropout
  | ZeroFan

text \<open>Sequencing of fallible steps: the first error ends the call, as a raised exception does.\<close>

definition and_then :: "error + 'a \<Rightarrow> ('a \<Rightarrow> error + 'b) \<Rightarrow> error + 'b" where
  "and_then r f = (case r of Inl e \<Rightarrow> Inl e | Inr x \<Rightarrow> f x)"

text \<open>
  A dense tensor of shape \<open>(shape0, shape1)\<close>: its rows, and the number of columns
  (kept apart so that a tensor with no row still has a column count).
\<close>

datatype matrix = Matrix (shape1: nat) (rows: "real list list")

definition shape0 :: "matrix \<Rightarrow> nat" where
  "shape0 M = length (rows M)"

definition wf_matrix :: "matrix \<Rightarrow> bool" where
  "wf_matrix M = list_all (\<lambda>r. length r = shape1 M) (rows M)"

definition entry :: "matrix \<Rightarrow> nat \<Rightarrow> nat \<Rightarrow> real" where
  "entry M i j = rows M ! i ! j"

definition build :: "nat \<Rightarrow> nat \<Rightarrow> (nat \<Rightarrow> nat \<Rightarrow> real) \<Rightarrow> matrix" where
  "build m n f = Matrix n (map (\<lambda>i. map (\<lambda>j. f i j) [0..<n]) [0..<m])"

text \<open>
  A sparse matrix as the layers receive it: a dictionary with the keys \<open>indices\<close> (a
  \<open>2 \<times> nnz\<close> tensor, here the list of its columns \<open>(row, col)\<close>) and \<open>values\<close>.
\<close>

record sparse =
  indices :: "(nat \<times> nat) list"
  "values" :: "real list"

text \<open>
  \<open>torch.max(t, dim=1)\<close> on the \<open>2 \<times> nnz\<close> index tensor: the largest row index and
  the largest column index. Reducing over an empty dimension is an error.
\<close>

definition torch_max_dim1 :: "(nat \<times> nat) list \<Rightarrow> error + nat \<times> nat" where
  "torch_max_dim1 idx =
     (case idx of
        [] \<Rightarrow> Inl EmptyReduction
      | p # ps \<Rightarrow> Inr (foldl max (fst p) (map fst ps), foldl max (snd p) (map snd ps)))"

text \<open>
  \<open>torch_sparse.spmm(index, value, m, n, matrix)\<close>:
  \<^verbatim>\<open>
    assert n == matrix.size(-2)
    row, col = index[0], index[1]
    out = matrix.index_select(-2, col)
    out = out * value.unsqueeze(-1)
    out = scatter_add(out, row, dim=-2, dim_size=m)
  \<close>
  \<open>value\<close> has one entry per index pair; unequal lengths are a dimension mismatch.
\<close>

definition index_select :: "matrix \<Rightarrow> nat list \<Rightarrow> error + matrix" where
  "index_select M col =
     (if \<exists>c \<in> set col. shape0 M \<le> c then Inl IndexOutOfRange
      else Inr (Matrix (shape1 M) (map (\<lambda>c. rows M ! c) col)))"

definition mul_values :: "matrix \<Rightarrow> real list \<Rightarrow> error + matrix" where
  "mul_values out v =
     (if length v \<noteq> shape0 out then Inl DimensionMismatch
      else Inr (build (shape0 out) (shape1 out) (\<lambda>k j. entry out k j * v ! k)))"

definition scatter_add :: "matrix \<Rightarrow> nat list \<Rightarrow> nat \<Rightarrow> error + matrix" where
  "scatter_add src row dim_size =
     (if \<exists>r \<in> set row. dim_size \<le> r then Inl IndexOutOfRange
      else Inr (build dim_size (shape1 src)
                 (\<lambda>i j. \<Sum>k\<leftarrow>[0..<length row]. if row ! k = i then entry src k j else 0)))"

definition spmm :: "(nat \<times> nat) list \<Rightarrow> real list \<Rightarrow> nat \<Rightarrow> nat \<Rightarrow> matrix \<Rightarrow> error + matrix" where
  "spmm index v m n M =
     (if n \<noteq> shape0 M then Inl DimensionMismatch
      else and_then (index_select M (map snd index)) (\<lambda>out.
           and_then (mul_values out v) (\<lambda>out.
           scatter_add out (map fst index) m)))"

text \<open>\<open>torch.mm(a, b)\<close>: the dense product; the inner dimensions must agree.\<close>

definition torch_mm :: "matrix \<Rightarrow> matrix \<Rightarrow> error + matrix" where
  "torch_mm A B =
     (if shape1 A \<noteq> shape0 B then Inl DimensionMismatch
      else Inr (build (shape0 A) (shape1 B)
                 (\<lambda>i j. \<Sum>k\<leftarrow>[0..<shape1 A]. entry A i k * entry B k j)))"

text \<open>
  \<open>a + b\<close> on two-dimensional tensors, with torch's broadcasting: in each dimension the
  sizes are equal or one of them is 1.
\<close>

definition broadcast_dim :: "nat \<Rightarrow> nat \<Rightarrow> error + nat" where
  "broadcast_dim a b =
     (if a = b then Inr a
      else if a = 1 then Inr b
      else if b = 1 then Inr a
      else Inl DimensionMismatch)"

definition bcast :: "nat \<Rightarrow> nat \<Rightarrow> nat" where
  "bcast d i = (if d = 1 then 0 else i)"

definition tensor_add :: "matrix \<Rightarrow> matrix \<Rightarrow> error + matrix" where
  "tensor_add A B =
     and_then (broadcast_dim (shape0 A) (shape0 B)) (\<lambda>m.
     and_then (broadcast_dim (shape1 A) (shape1 B)) (\<lambda>n.
     Inr (build m n (\<lambda>i j. entry A (bcast (shape0 A) i) (bcast (shape1 A) j)
                         + entry B (bcast (shape0 B) i) (bcast (shape1 B) j)))))"

text \<open>
  \<open>torch.nn.functional.dropout(input, p, training)\<close>. The rate is checked on every call;
  the input passes through unchanged when \<open>p = 0\<close>, outside training, or when it has no
  element; \<open>p = 1\<close> zeroes it; otherwise each element is kept or zeroed by a Bernoulli
  draw and the kept ones are scaled by \<open>1 / (1 - p)\<close>. The draw is the argument
  \<open>keep\<close>.
\<close>

definition dropout :: "matrix \<Rightarrow> real \<Rightarrow> bool \<Rightarrow> (nat \<Rightarrow> nat \<Rightarrow> bool) \<Rightarrow> error + matrix" where
  "dropout input p train keep =
     (if p < 0 \<or> 1 < p then Inl InvalidDropout
      else if p = 0 \<or> \<not> train \<or> shape0 input * shape1 input = 0 then Inr input
      else if p = 1 then Inr (build (shape0 input) (shape1 input) (\<lambda>i j. entry input i j * 0))
      else Inr (build (shape0 input) (shape1 input)
                 (\<lambda>i j. entry input i j * ((if keep i j then 1 else 0) / (1 - p)))))"

text \<open>\<open>torch.nn.functional.relu\<close>: the elementwise maximum with 0.\<close>

definition relu :: "matrix \<Rightarrow> matrix" where
  "relu M = Matrix (shape1 M) (map (map (max 0)) (rows M))"

text \<open>\<open>range(n)\<close> of Python: empty when \<open>n \<le> 0\<close>.\<close>

definition py_range :: "int \<Rightarrow> nat list" where
  "py_range n = [0..<nat n]"

section \<open>The layers\<close>

text \<open>
  The attributes of a layer object. \<open>training\<close> is the mode flag of
  \<open>torch.nn.Module\<close>, set by the constructor of the base class.
\<close>

record layer =
  in_channels :: nat
  out_channels :: nat
  iterations :: int
  dropout_rate :: real
  device :: string
  weight_matrix :: matrix
  bias :: matrix
  training :: bool

text \<open>
  \<open>xavier_uniform_\<close> on a tensor of shape \<open>(r, c)\<close>: the bound of the uniform
  distribution divides by \<open>fan_in + fan_out = c + r\<close>, which fails when both are 0.
  The values drawn are the argument \<open>draw\<close>.
\<close>

definition xavier_uniform :: "nat \<Rightarrow> nat \<Rightarrow> (nat \<Rightarrow> nat \<Rightarrow> real) \<Rightarrow> error + matrix" where
  "xavier_uniform r c draw = (if c + r = 0 then Inl ZeroFan else Inr (build r c draw))"

text \<open>\<open>SparseNGCNLayer.__init__\<close>, with \<open>define_parameters\<close> and \<open>init_parameters\<close>.\<close>

definition SparseNGCNLayer_init ::
  "nat \<Rightarrow> nat \<Rightarrow> int \<Rightarrow> real \<Rightarrow> string \<Rightarrow> (nat \<Rightarrow> nat \<Rightarrow> real) \<Rightarrow> (nat \<Rightarrow> nat \<Rightarrow> real)
     \<Rightarrow> error + layer" where
  "SparseNGCNLayer_init in_ch out_ch iters rate dev wdraw bdraw =
     and_then (xavier_uniform in_ch out_ch wdraw) (\<lambda>w.
     and_then (xavier_uniform 1 out_ch bdraw) (\<lambda>b.
     Inr \<lparr>in_channels = in_ch, out_channels = out_ch, iterations = iters,
          dropout_rate = rate, device = dev, weight_matrix = w, bias = b,
          training = True\<rparr>))"

text \<open>The propagation loop of \<open>SparseNGCNLayer.forward\<close> (lines 56 to 61).\<close>

fun SparseNGCNLayer_loop :: "nat list \<Rightarrow> sparse \<Rightarrow> matrix \<Rightarrow> error + matrix" where
  "SparseNGCNLayer_loop [] normalized_adjacency_matrix base_features = Inr base_features"
| "SparseNGCNLayer_loop (_ # rest) normalized_adjacency_matrix base_features =
     and_then (spmm (indices normalized_adjacency_matrix)
                    (values normalized_adjacency_matrix)
                    (shape0 base_features)
                    (shape0 base_features)
                    base_features)
              (SparseNGCNLayer_loop rest normalized_adjacency_matrix)"

text \<open>\<open>SparseNGCNLayer.forward\<close>.\<close>

definition SparseNGCNLayer_forward ::
  "layer \<Rightarrow> sparse \<Rightarrow> sparse \<Rightarrow> (nat \<Rightarrow> nat \<Rightarrow> bool) \<Rightarrow> error + matrix" where
  "SparseNGCNLayer_forward self normalized_adjacency_matrix features keep =
     and_then (torch_max_dim1 (indices features)) (\<lambda>(max_row, max_col).
     let feature_count = (max_row + 1, max_col + 1) in
     and_then (spmm (indices features) (values features)
                    (fst feature_count) (snd feature_count) (weight_matrix self)) (\<lambda>base_features.
     and_then (tensor_add base_features (bias self)) (\<lambda>base_features.
     and_then (dropout base_features (dropout_rate self) (training self) keep) (\<lambda>base_features.
     SparseNGCNLayer_loop (py_range (iterations self - 1)) normalized_adjacency_matrix
       (relu base_features)))))"

text \<open>\<open>DenseNGCNLayer.__init__\<close>, with \<open>define_parameters\<close> and \<open>init_parameters\<close>.\<close>

definition DenseNGCNLayer_init ::
  "nat \<Rightarrow> nat \<Rightarrow> int \<Rightarrow> real \<Rightarrow> string \<Rightarrow> (nat \<Rightarrow> nat \<Rightarrow> real) \<Rightarrow> (nat \<Rightarrow> nat \<Rightarrow> real)
     \<Rightarrow> error + layer" where
  "DenseNGCNLayer_init in_ch out_ch iters rate dev wdraw bdraw =
     and_then (xavier_uniform in_ch out_ch wdraw) (\<lambda>w.
     and_then (xavier_uniform 1 out_ch bdraw) (\<lambda>b.
     Inr \<lparr>in_channels = in_ch, out_channels = out_ch, iterations = iters,
          dropout_rate = rate, device = dev, weight_matrix = w, bias = b,
          training = True\<rparr>))"

text \<open>The propagation loop of \<open>DenseNGCNLayer.forward\<close> (lines 112 to 117).\<close>

fun DenseNGCNLayer_loop :: "nat list \<Rightarrow> sparse \<Rightarrow> matrix \<Rightarrow> error + matrix" where
  "DenseNGCNLayer_loop [] normalized_adjacency_matrix base_features = Inr base_features"
| "DenseNGCNLayer_loop (_ # rest) normalized_adjacency_matrix base_features =
     and_then (spmm (indices normalized_adjacency_matrix)
                    (values normalized_adjacency_matrix)
                    (shape0 base_features)
                    (shape0 base_features)
                    base_features)
              (DenseNGCNLayer_loop rest normalized_adjacency_matrix)"

text \<open>\<open>DenseNGCNLayer.forward\<close>.\<close>

definition DenseNGCNLayer_forward ::
  "layer \<Rightarrow> sparse \<Rightarrow> matrix \<Rightarrow> (nat \<Rightarrow> nat \<Rightarrow> bool) \<Rightarrow> error + matrix" where
  "DenseNGCNLayer_forward self normalized_adjacency_matrix features keep =
     and_then (torch_mm features (weight_matrix self)) (\<lambda>base_features.
     and_then (dropout base_features (dropout_rate self) (training self) keep) (\<lambda>base_features.
     and_then (DenseNGCNLayer_loop (py_range (iterations self - 1)) normalized_adjacency_matrix
                 base_features) (\<lambda>base_features.
     tensor_add base_features (bias self))))"

section \<open>Notions of the specification\<close>

text \<open>
  The dense matrix a sparse matrix stands for, with the extents \<open>m\<close> and \<open>n\<close>: the
  values of repeated index pairs add up.
\<close>

definition to_dense :: "(nat \<times> nat) list \<Rightarrow> real list \<Rightarrow> nat \<Rightarrow> nat \<Rightarrow> matrix" where
  "to_dense idx v m n =
     build m n (\<lambda>i j. \<Sum>k\<leftarrow>[0..<length idx]. if idx ! k = (i, j) then v ! k else 0)"

text \<open>The product of two dense matrices, \<open>A\<close> applied to \<open>B\<close> from the left.\<close>

definition matmul :: "matrix \<Rightarrow> matrix \<Rightarrow> matrix" where
  "matmul A B =
     build (shape0 A) (shape1 B) (\<lambda>i j. \<Sum>k\<leftarrow>[0..<shape1 A]. entry A i k * entry B k j)"

text \<open>The \<open>N \<times> N\<close> matrix of an adjacency given in sparse form.\<close>

definition adjacency_dense :: "sparse \<Rightarrow> nat \<Rightarrow> matrix" where
  "adjacency_dense adj N = to_dense (indices adj) (values adj) N N"

text \<open>One propagation step: the body of the loop, on the current feature matrix.\<close>

definition propagation_step :: "sparse \<Rightarrow> matrix \<Rightarrow> error + matrix" where
  "propagation_step adj X = spmm (indices adj) (values adj) (shape0 X) (shape0 X) X"

text \<open>A fallible step performed \<open>k\<close> times in a row.\<close>

fun repeated :: "nat \<Rightarrow> ('a \<Rightarrow> error + 'a) \<Rightarrow> 'a \<Rightarrow> error + 'a" where
  "repeated 0 f x = Inr x"
| "repeated (Suc k) f x = and_then (f x) (repeated k f)"

text \<open>The identity adjacency on \<open>N\<close> nodes: the diagonal, every value 1.\<close>

definition identity_adjacency :: "nat \<Rightarrow> sparse" where
  "identity_adjacency N = \<lparr>indices = map (\<lambda>i. (i, i)) [0..<N], values = replicate N 1\<rparr>"

text \<open>
  The shapes the constructors give the parameters, which training never changes: the
  weight matrix is \<open>in_channels \<times> out_channels\<close>, the bias \<open>1 \<times> out_channels\<close>.
\<close>

definition layer_shapes :: "layer \<Rightarrow> bool" where
  "layer_shapes self =
     (shape0 (weight_matrix self) = in_channels self \<and>
      shape1 (weight_matrix self) = out_channels self \<and>
      wf_matrix (weight_matrix self) \<and>
      shape0 (bias self) = 1 \<and>
      shape1 (bias self) = out_channels self \<and>
      wf_matrix (bias self))"

section \<open>A small instance\<close>

text \<open>
  Two nodes, two input and two output channels. The features are
  \<open>[[1, 0], [3, 2]]\<close>, once in sparse and once in dense form; the adjacency is
  \<open>[[0, 1], [1/2, 1/2]]\<close>; the weights are \<open>[[0, -1], [1, 0]]\<close> and the bias is
  \<open>[[1/2, 1/2]]\<close>.
\<close>

definition ex_wdraw :: "nat \<Rightarrow> nat \<Rightarrow> real" where
  "ex_wdraw i j = real i - real j"

definition ex_bdraw :: "nat \<Rightarrow> nat \<Rightarrow> real" where
  "ex_bdraw i j = 1 / 2"

definition ex_keep :: "nat \<Rightarrow> nat \<Rightarrow> bool" where
  "ex_keep i j = (i = j)"

definition ex_keep' :: "nat \<Rightarrow> nat \<Rightarrow> bool" where
  "ex_keep' i j = (i \<noteq> j)"

definition ex_features :: sparse where
  "ex_features = \<lparr>indices = [(0, 0), (1, 1), (1, 0)], values = [1, 2, 3]\<rparr>"

definition ex_dense_features :: matrix where
  "ex_dense_features = Matrix 2 [[1, 0], [3, 2]]"

definition ex_adjacency :: sparse where
  "ex_adjacency = \<lparr>indices = [(0, 1), (1, 0), (1, 1)], values = [1, 1 / 2, 1 / 2]\<rparr>"

definition ex_layer :: layer where
  "ex_layer = \<lparr>in_channels = 2, out_channels = 2, iterations = 3, dropout_rate = 1 / 4,
               device = ''cpu'', weight_matrix = Matrix 2 [[0, - 1], [1, 0]],
               bias = Matrix 2 [[1 / 2, 1 / 2]], training = False\<rparr>"

text \<open>
  Two feature matrices whose sparse form leaves the last column or the last row without a
  stored entry: \<open>[[1, 0], [0, 0]]\<close>, stored as the single entry \<open>(0, 0) \<mapsto> 1\<close>, and
  the features of a graph of three nodes whose last node has none,
  \<open>[[1, 0], [3, 2], [0, 0]]\<close>, whose sparse form is that of the instance above.
\<close>

definition ex_corner_features :: sparse where
  "ex_corner_features = \<lparr>indices = [(0, 0)], values = [1]\<rparr>"

definition ex_corner_dense :: matrix where
  "ex_corner_dense = Matrix 2 [[1, 0], [0, 0]]"

definition ex_tall_dense :: matrix where
  "ex_tall_dense = Matrix 2 [[1, 0], [3, 2], [0, 0]]"

section \<open>Properties of the primitives\<close>

lemma and_then_Inr [simp]: "and_then (Inr x) f = f x"
  by (simp add: and_then_def)

lemma and_then_Inl [simp]: "and_then (Inl e) f = Inl e"
  by (simp add: and_then_def)

lemma and_then_eq_Inr: "and_then r f = Inr y \<longleftrightarrow> (\<exists>x. r = Inr x \<and> f x = Inr y)"
  by (cases r) simp_all

lemma shape0_build [simp]: "shape0 (build m n f) = m"
  by (simp add: shape0_def build_def)

lemma shape1_build [simp]: "shape1 (build m n f) = n"
  by (simp add: build_def)

lemma entry_build [simp]: "i < m \<Longrightarrow> j < n \<Longrightarrow> entry (build m n f) i j = f i j"
  by (simp add: entry_def build_def)

lemma wf_build [simp]: "wf_matrix (build m n f)"
  by (simp add: wf_matrix_def build_def list_all_iff)

lemma build_cong: "(\<And>i j. i < m \<Longrightarrow> j < n \<Longrightarrow> f i j = g i j) \<Longrightarrow> build m n f = build m n g"
  by (simp add: build_def)

lemma build_entry: "wf_matrix M \<Longrightarrow> build (shape0 M) (shape1 M) (entry M) = M"
proof -
  assume wf: "wf_matrix M"
  have "map (\<lambda>i. map (\<lambda>j. rows M ! i ! j) [0..<shape1 M]) [0..<length (rows M)] = rows M"
  proof (rule nth_equalityI)
    show "length (map (\<lambda>i. map (\<lambda>j. rows M ! i ! j) [0..<shape1 M]) [0..<length (rows M)]) = length (rows M)"
      by simp
  next
    fix i assume "i < length (map (\<lambda>i. map (\<lambda>j. rows M ! i ! j) [0..<shape1 M]) [0..<length (rows M)])"
    then have i: "i < length (rows M)" by simp
    then have "length (rows M ! i) = shape1 M"
      using wf by (simp add: wf_matrix_def list_all_length)
    then have "map (\<lambda>j. rows M ! i ! j) [0..<shape1 M] = rows M ! i"
      by (metis map_nth)
    with i show "map (\<lambda>i. map (\<lambda>j. rows M ! i ! j) [0..<shape1 M]) [0..<length (rows M)] ! i = rows M ! i"
      by simp
  qed
  then show ?thesis
    by (cases M) (simp add: build_def shape0_def entry_def)
qed

lemma spmm_unfold:
  "spmm idx v m n M =
     (if n \<noteq> shape0 M then Inl DimensionMismatch
      else if \<exists>p \<in> set idx. shape0 M \<le> snd p then Inl IndexOutOfRange
      else if length v \<noteq> length idx then Inl DimensionMismatch
      else if \<exists>p \<in> set idx. m \<le> fst p then Inl IndexOutOfRange
      else Inr (build m (shape1 M)
                 (\<lambda>i j. \<Sum>k\<leftarrow>[0..<length idx].
                     if fst (idx ! k) = i then entry M (snd (idx ! k)) j * v ! k else 0)))"
proof -
  have sel: "entry (Matrix c (map f xs)) k j = f (xs ! k) ! j" if "k < length xs"
    for c k j and f :: "nat \<times> nat \<Rightarrow> real list" and xs
    using that by (simp add: entry_def)
  have "build m (shape1 M) (\<lambda>i j. \<Sum>k\<leftarrow>[0..<length idx].
           if map fst idx ! k = i
           then entry (build (length idx) (shape1 M)
                  (\<lambda>k j. entry (Matrix (shape1 M) (map (\<lambda>c. rows M ! c) (map snd idx))) k j * v ! k)) k j
           else 0)
      = build m (shape1 M) (\<lambda>i j. \<Sum>k\<leftarrow>[0..<length idx].
           if fst (idx ! k) = i then entry M (snd (idx ! k)) j * v ! k else 0)"
    by (rule build_cong, rule arg_cong[where f = sum_list], rule map_cong) (simp_all add: sel entry_def[symmetric])
  then show ?thesis
    by (auto simp add: spmm_def index_select_def mul_values_def scatter_add_def shape0_def simp del: map_map)
qed


lemma sum_list_upt_sum: "(\<Sum>k\<leftarrow>[0..<n]. f k) = (\<Sum>k\<in>{0..<n}. f k)" for f :: "nat \<Rightarrow> real"
  by (simp add: interv_sum_list_conv_sum_set_nat)

lemma spmm_matmul:
  assumes "spmm idx v m n M = Inr R"
  shows "R = matmul (to_dense idx v m n) M"
proof -
  from assms have n: "n = shape0 M"
    and cols: "\<forall>p \<in> set idx. snd p < n"
    and R: "R = build m (shape1 M)
                 (\<lambda>i j. \<Sum>k\<leftarrow>[0..<length idx].
                     if fst (idx ! k) = i then entry M (snd (idx ! k)) j * v ! k else 0)"
    by (auto simp add: spmm_unfold split: if_splits)
  have "(\<Sum>c\<leftarrow>[0..<n]. entry (to_dense idx v m n) i c * entry M c j)
      = (\<Sum>k\<leftarrow>[0..<length idx].
            if fst (idx ! k) = i then entry M (snd (idx ! k)) j * v ! k else 0)"
    if "i < m" for i j
  proof -
    have "(\<Sum>c\<leftarrow>[0..<n]. entry (to_dense idx v m n) i c * entry M c j)
        = (\<Sum>c\<in>{0..<n}. (\<Sum>k\<in>{0..<length idx}. if idx ! k = (i, c) then v ! k else 0) * entry M c j)"
      using that by (simp add: sum_list_upt_sum to_dense_def)
    also have "\<dots> = (\<Sum>c\<in>{0..<n}. \<Sum>k\<in>{0..<length idx}.
                        (if idx ! k = (i, c) then v ! k else 0) * entry M c j)"
      by (simp add: sum_distrib_right)
    also have "\<dots> = (\<Sum>k\<in>{0..<length idx}. \<Sum>c\<in>{0..<n}.
                        (if idx ! k = (i, c) then v ! k else 0) * entry M c j)"
      by (rule sum.swap)
    also have "\<dots> = (\<Sum>k\<in>{0..<length idx}.
                        if fst (idx ! k) = i then entry M (snd (idx ! k)) j * v ! k else 0)"
    proof (rule sum.cong)
      fix k assume "k \<in> {0..<length idx}"
      then have c: "snd (idx ! k) < n"
        using cols by simp
      have "(\<Sum>c\<in>{0..<n}. (if idx ! k = (i, c) then v ! k else 0) * entry M c j)
          = (\<Sum>c\<in>{0..<n}. if c = snd (idx ! k)
                             then (if fst (idx ! k) = i then entry M c j * v ! k else 0) else 0)"
        by (rule sum.cong) (auto simp add: prod_eq_iff)
      also have "\<dots> = (if fst (idx ! k) = i then entry M (snd (idx ! k)) j * v ! k else 0)"
        using c by simp
      finally show "(\<Sum>c\<in>{0..<n}. (if idx ! k = (i, c) then v ! k else 0) * entry M c j)
          = (if fst (idx ! k) = i then entry M (snd (idx ! k)) j * v ! k else 0)" .
    qed simp
    finally show ?thesis
      by (simp add: sum_list_upt_sum)
  qed
  note key = this
  have "matmul (to_dense idx v m n) M
      = build m (shape1 M) (\<lambda>i j. \<Sum>c\<leftarrow>[0..<n]. entry (to_dense idx v m n) i c * entry M c j)"
    by (simp add: matmul_def to_dense_def)
  also have "\<dots> = R"
    unfolding R by (rule build_cong) (simp add: key)
  finally show ?thesis by simp
qed


lemma length_py_range [simp]: "length (py_range n) = nat n"
  by (simp add: py_range_def)

lemma Sparse_loop_repeated:
  "SparseNGCNLayer_loop xs adj X = repeated (length xs) (propagation_step adj) X"
  by (induction xs arbitrary: X) (simp_all add: propagation_step_def and_then_def split: sum.splits)

lemma Dense_loop_repeated:
  "DenseNGCNLayer_loop xs adj X = repeated (length xs) (propagation_step adj) X"
  by (induction xs arbitrary: X) (simp_all add: propagation_step_def and_then_def split: sum.splits)

lemma spmm_shape:
  "spmm idx v m n M = Inr R \<Longrightarrow> shape0 R = m \<and> shape1 R = shape1 M \<and> wf_matrix R"
  by (auto simp add: spmm_unfold split: if_splits)

lemma propagation_step_shape:
  "propagation_step adj X = Inr Y \<Longrightarrow> shape0 Y = shape0 X \<and> shape1 Y = shape1 X \<and> wf_matrix Y"
  unfolding propagation_step_def by (rule spmm_shape)

lemma propagation_step_matmul:
  "propagation_step adj X = Inr Y \<Longrightarrow> Y = matmul (adjacency_dense adj (shape0 X)) X"
  unfolding propagation_step_def adjacency_dense_def by (rule spmm_matmul)

lemma repeated_propagation:
  "repeated k (propagation_step adj) X = Inr Y \<Longrightarrow>
     Y = (matmul (adjacency_dense adj (shape0 X)) ^^ k) X \<and> shape0 Y = shape0 X \<and> shape1 Y = shape1 X"
proof (induction k arbitrary: X)
  case 0
  then show ?case by simp
next
  case (Suc k)
  from Suc.prems obtain X' where step: "propagation_step adj X = Inr X'"
    and rest: "repeated k (propagation_step adj) X' = Inr Y"
    by (auto simp add: and_then_eq_Inr)
  have X': "X' = matmul (adjacency_dense adj (shape0 X)) X"
    and shape: "shape0 X' = shape0 X" "shape1 X' = shape1 X"
    using propagation_step_shape[OF step] propagation_step_matmul[OF step] by simp_all
  from Suc.IH[OF rest] have "Y = (matmul (adjacency_dense adj (shape0 X)) ^^ k) X'"
    and "shape0 Y = shape0 X" and "shape1 Y = shape1 X"
    by (auto simp add: shape)
  then show ?case
    by (simp add: X' funpow_swap1)
qed

lemma identity_step:
  assumes "wf_matrix X"
  shows "propagation_step (identity_adjacency (shape0 X)) X = Inr X"
proof -
  have "(\<Sum>k\<leftarrow>[0..<shape0 X]. if k = i then entry X k j * 1 else 0) = entry X i j"
    if "i < shape0 X" for i j
    using that by (simp add: sum_list_upt_sum)
  then have "build (shape0 X) (shape1 X)
               (\<lambda>i j. \<Sum>k\<leftarrow>[0..<shape0 X]. if k = i then entry X k j * 1 else 0)
             = build (shape0 X) (shape1 X) (entry X)"
    by (intro build_cong) simp
  moreover have "(\<Sum>k\<leftarrow>[0..<shape0 X].
                    if fst (map (\<lambda>i. (i, i)) [0..<shape0 X] ! k) = i
                    then entry X (snd (map (\<lambda>i. (i, i)) [0..<shape0 X] ! k)) j * replicate (shape0 X) 1 ! k
                    else 0)
               = (\<Sum>k\<leftarrow>[0..<shape0 X]. if k = i then entry X k j * 1 else 0)" for i j
    by (rule arg_cong[where f = sum_list], rule map_cong) simp_all
  ultimately show ?thesis
    using assms
    by (simp add: propagation_step_def identity_adjacency_def spmm_unfold build_entry)
qed

lemma identity_repeated:
  "wf_matrix X \<Longrightarrow> repeated k (propagation_step (identity_adjacency (shape0 X))) X = Inr X"
  by (induction k) (simp_all add: identity_step)

lemma wf_relu [simp]: "wf_matrix (relu M) = wf_matrix M"
  by (simp add: wf_matrix_def relu_def list_all_iff)

lemma shape0_relu [simp]: "shape0 (relu M) = shape0 M"
  by (simp add: shape0_def relu_def)

lemma shape1_relu [simp]: "shape1 (relu M) = shape1 M"
  by (simp add: relu_def)

lemma dropout_shape:
  "dropout X p t keep = Inr Y \<Longrightarrow>
     shape0 Y = shape0 X \<and> shape1 Y = shape1 X \<and> (wf_matrix X \<longrightarrow> wf_matrix Y)"
  by (auto simp add: dropout_def split: if_splits)

lemma tensor_add_wf: "tensor_add A B = Inr C \<Longrightarrow> wf_matrix C"
  by (auto simp add: tensor_add_def and_then_eq_Inr)

lemma tensor_add_bias_shape:
  "tensor_add A B = Inr C \<Longrightarrow> shape0 B = 1 \<Longrightarrow> shape1 B = shape1 A \<Longrightarrow>
     shape0 C = shape0 A \<and> shape1 C = shape1 A"
  by (auto simp add: tensor_add_def and_then_eq_Inr broadcast_dim_def split: if_splits)

lemma torch_mm_shape:
  "torch_mm A B = Inr C \<Longrightarrow> shape0 C = shape0 A \<and> shape1 C = shape1 B \<and> wf_matrix C"
  by (auto simp add: torch_mm_def split: if_splits)

lemma foldl_max_Max: "foldl max (x::nat) xs = Max (set (x # xs))"
proof -
  have "(\<lambda>(y::nat) s. max s y) = max"
    by (intro ext) (simp add: max.commute)
  then have "foldl max x xs = fold max xs x"
    by (simp add: foldl_conv_fold)
  also have "\<dots> = Max (set (x # xs))"
    by (rule Max.set_eq_fold[symmetric])
  finally show ?thesis .
qed

lemma torch_max_dim1_Max:
  "idx \<noteq> [] \<Longrightarrow> torch_max_dim1 idx = Inr (Max (fst ` set idx), Max (snd ` set idx))"
  by (cases idx) (simp_all add: torch_max_dim1_def foldl_max_Max)

lemma torch_mm_matmul:
  "torch_mm A B = (if shape1 A \<noteq> shape0 B then Inl DimensionMismatch else Inr (matmul A B))"
  by (simp add: torch_mm_def matmul_def)

lemma Sparse_forward_iterations_le_1:
  "iterations self \<le> 1 \<Longrightarrow>
     SparseNGCNLayer_forward self adj features keep =
     SparseNGCNLayer_forward (self\<lparr>iterations := 1\<rparr>) adj features keep"
  by (simp add: SparseNGCNLayer_forward_def py_range_def)

lemma Dense_forward_iterations_le_1:
  "iterations self \<le> 1 \<Longrightarrow>
     DenseNGCNLayer_forward self adj features keep =
     DenseNGCNLayer_forward (self\<lparr>iterations := 1\<rparr>) adj features keep"
  by (simp add: DenseNGCNLayer_forward_def py_range_def)

lemma Sparse_forward_unfold:
  "SparseNGCNLayer_forward self adj features keep =
     and_then (torch_max_dim1 (indices features)) (\<lambda>(r, c).
     and_then (spmm (indices features) (values features) (r + 1) (c + 1)
                 (weight_matrix self)) (\<lambda>P.
     and_then (tensor_add P (bias self)) (\<lambda>B.
     and_then (dropout B (dropout_rate self) (training self) keep) (\<lambda>D.
     repeated (nat (iterations self - 1)) (propagation_step adj) (relu D)))))"
  by (simp add: SparseNGCNLayer_forward_def Sparse_loop_repeated case_prod_unfold)

lemma Dense_forward_unfold:
  "DenseNGCNLayer_forward self adj features keep =
     and_then (torch_mm features (weight_matrix self)) (\<lambda>P.
     and_then (dropout P (dropout_rate self) (training self) keep) (\<lambda>D.
     and_then (repeated (nat (iterations self - 1)) (propagation_step adj) D) (\<lambda>Z.
     tensor_add Z (bias self))))"
  by (simp add: DenseNGCNLayer_forward_def Dense_loop_repeated)

lemma repeated_shape:
  "repeated k (propagation_step adj) X = Inr Y \<Longrightarrow> shape0 Y = shape0 X \<and> shape1 Y = shape1 X"
  using repeated_propagation[of k adj X Y] by blast

lemma sparse_prelude_shape:
  assumes "layer_shapes self"
    and "spmm idx v m n (weight_matrix self) = Inr P"
    and "tensor_add P (bias self) = Inr B"
    and "dropout B p t keep = Inr D"
  shows "shape0 D = m \<and> shape1 D = out_channels self \<and> wf_matrix D"
proof -
  from spmm_shape[OF assms(2)] assms(1)
  have P: "shape0 P = m" "shape1 P = out_channels self"
    by (simp_all add: layer_shapes_def)
  with assms(1) have "shape0 (bias self) = 1" "shape1 (bias self) = shape1 P"
    by (simp_all add: layer_shapes_def)
  from tensor_add_bias_shape[OF assms(3) this] tensor_add_wf[OF assms(3)] P
  have "shape0 B = m" "shape1 B = out_channels self" "wf_matrix B"
    by simp_all
  with dropout_shape[OF assms(4)] show ?thesis
    by simp
qed

lemma spmm_to_dense_torch_mm:
  assumes "idx \<noteq> []" and "length v = length idx"
  shows "spmm idx v (Max (fst ` set idx) + 1) (Max (snd ` set idx) + 1) W =
         torch_mm (to_dense idx v (Max (fst ` set idx) + 1) (Max (snd ` set idx) + 1)) W"
proof (cases "Max (snd ` set idx) + 1 = shape0 W")
  case False
  then show ?thesis
    by (simp add: spmm_def torch_mm_def to_dense_def)
next
  case True
  have r: "\<forall>p \<in> set idx. fst p < Max (fst ` set idx) + 1"
    by (simp add: less_Suc_eq_le)
  have c: "\<forall>p \<in> set idx. snd p < shape0 W"
    unfolding True[symmetric] by (simp add: less_Suc_eq_le)
  from True r c assms(2)
  obtain R where R: "spmm idx v (Max (fst ` set idx) + 1) (Max (snd ` set idx) + 1) W = Inr R"
    by (auto simp add: spmm_unfold not_le)
  from spmm_matmul[OF R] R True show ?thesis
    by (simp add: torch_mm_matmul to_dense_def)
qed

section \<open>The claims\<close>

text \<open>
  C1. For the sparse layer with \<open>iterations \<ge> 1\<close>, \<open>forward\<close> computes the
  projection \<open>spmm(features) \<cdot> weight_matrix\<close>, adds the bias, applies dropout and
  then ReLU, each once, and then performs exactly \<open>iterations - 1\<close> propagation steps
  and nothing else. When it returns a matrix, the projection is the product of the dense
  feature matrix with the weights, and the result is the \<open>(iterations - 1)\<close>-th power of
  the adjacency matrix applied to \<open>ReLU(dropout(projection + bias))\<close>.
\<close>

theorem C1_sparse_forward:
  assumes "1 \<le> iterations self"
  shows "SparseNGCNLayer_forward self adj features keep =
           and_then (torch_max_dim1 (indices features)) (\<lambda>(r, c).
           and_then (spmm (indices features) (values features) (r + 1) (c + 1)
                       (weight_matrix self)) (\<lambda>P.
           and_then (tensor_add P (bias self)) (\<lambda>B.
           and_then (dropout B (dropout_rate self) (training self) keep) (\<lambda>D.
           repeated (nat (iterations self - 1)) (propagation_step adj) (relu D)))))
         \<and> (\<forall>Y. SparseNGCNLayer_forward self adj features keep = Inr Y \<longrightarrow>
              (\<exists>r c P B D.
                 torch_max_dim1 (indices features) = Inr (r, c) \<and>
                 spmm (indices features) (values features) (r + 1) (c + 1)
                   (weight_matrix self) = Inr P \<and>
                 P = matmul (to_dense (indices features) (values features) (r + 1) (c + 1))
                       (weight_matrix self) \<and>
                 tensor_add P (bias self) = Inr B \<and>
                 dropout B (dropout_rate self) (training self) keep = Inr D \<and>
                 Y = (matmul (adjacency_dense adj (shape0 D)) ^^ nat (iterations self - 1))
                       (relu D)))"
proof (intro conjI allI impI)
  show eq: "SparseNGCNLayer_forward self adj features keep =
           and_then (torch_max_dim1 (indices features)) (\<lambda>(r, c).
           and_then (spmm (indices features) (values features) (r + 1) (c + 1)
                       (weight_matrix self)) (\<lambda>P.
           and_then (tensor_add P (bias self)) (\<lambda>B.
           and_then (dropout B (dropout_rate self) (training self) keep) (\<lambda>D.
           repeated (nat (iterations self - 1)) (propagation_step adj) (relu D)))))"
    by (simp add: SparseNGCNLayer_forward_def Sparse_loop_repeated case_prod_unfold)
  fix Y
  assume "SparseNGCNLayer_forward self adj features keep = Inr Y"
  then obtain r c P B D where
    1: "torch_max_dim1 (indices features) = Inr (r, c)" and
    2: "spmm (indices features) (values features) (r + 1) (c + 1) (weight_matrix self) = Inr P" and
    3: "tensor_add P (bias self) = Inr B" and
    4: "dropout B (dropout_rate self) (training self) keep = Inr D" and
    5: "repeated (nat (iterations self - 1)) (propagation_step adj) (relu D) = Inr Y"
    unfolding eq by (auto simp add: and_then_eq_Inr)
  from repeated_propagation[OF 5]
  have "Y = (matmul (adjacency_dense adj (shape0 D)) ^^ nat (iterations self - 1)) (relu D)"
    by simp
  with 1 2 3 4 spmm_matmul[OF 2]
  show "\<exists>r c P B D.
                 torch_max_dim1 (indices features) = Inr (r, c) \<and>
                 spmm (indices features) (values features) (r + 1) (c + 1)
                   (weight_matrix self) = Inr P \<and>
                 P = matmul (to_dense (indices features) (values features) (r + 1) (c + 1))
                       (weight_matrix self) \<and>
                 tensor_add P (bias self) = Inr B \<and>
                 dropout B (dropout_rate self) (training self) keep = Inr D \<and>
                 Y = (matmul (adjacency_dense adj (shape0 D)) ^^ nat (iterations self - 1))
                       (relu D)"
    by blast
qed

theorem C1_witness:
  "1 \<le> iterations ex_layer \<and>
   SparseNGCNLayer_forward ex_layer ex_adjacency ex_features ex_keep =
     Inr (Matrix 2 [[3 / 2, 0], [2, 0]])"
proof -
  have h: "1 \<le> iterations ex_layer"
    by (simp add: ex_layer_def)
  have "SparseNGCNLayer_forward ex_layer ex_adjacency ex_features ex_keep =
           and_then (torch_max_dim1 (indices ex_features)) (\<lambda>(r, c).
           and_then (spmm (indices ex_features) (values ex_features) (r + 1) (c + 1)
                       (weight_matrix ex_layer)) (\<lambda>P.
           and_then (tensor_add P (bias ex_layer)) (\<lambda>B.
           and_then (dropout B (dropout_rate ex_layer) (training ex_layer) ex_keep) (\<lambda>D.
           repeated (nat (iterations ex_layer - 1)) (propagation_step ex_adjacency) (relu D)))))"
    using C1_sparse_forward[OF h] by (rule conjunct1)
  also have "\<dots> = Inr (Matrix 2 [[3 / 2, 0], [2, 0]])"
    by code_simp
  finally show ?thesis
    using h by simp
qed

text \<open>
  C2. For the dense layer with \<open>iterations \<ge> 1\<close>, \<open>forward\<close> computes the
  projection \<open>features \<cdot> weight_matrix\<close>, applies dropout, performs exactly
  \<open>iterations - 1\<close> propagation steps and then adds the bias; ReLU does not occur. When
  it returns a matrix, that matrix is the bias added to the \<open>(iterations - 1)\<close>-th
  power of the adjacency matrix applied to the projection after dropout.
\<close>

theorem C2_dense_forward:
  assumes "1 \<le> iterations self"
  shows "DenseNGCNLayer_forward self adj features keep =
           and_then (torch_mm features (weight_matrix self)) (\<lambda>P.
           and_then (dropout P (dropout_rate self) (training self) keep) (\<lambda>D.
           and_then (repeated (nat (iterations self - 1)) (propagation_step adj) D) (\<lambda>Z.
           tensor_add Z (bias self))))
         \<and> (\<forall>Y. DenseNGCNLayer_forward self adj features keep = Inr Y \<longrightarrow>
              (\<exists>D. dropout (matmul features (weight_matrix self))
                       (dropout_rate self) (training self) keep = Inr D \<and>
                   tensor_add
                     ((matmul (adjacency_dense adj (shape0 D)) ^^ nat (iterations self - 1)) D)
                     (bias self) = Inr Y))"
proof (intro conjI allI impI)
  show eq: "DenseNGCNLayer_forward self adj features keep =
           and_then (torch_mm features (weight_matrix self)) (\<lambda>P.
           and_then (dropout P (dropout_rate self) (training self) keep) (\<lambda>D.
           and_then (repeated (nat (iterations self - 1)) (propagation_step adj) D) (\<lambda>Z.
           tensor_add Z (bias self))))"
    by (simp add: DenseNGCNLayer_forward_def Dense_loop_repeated)
  fix Y
  assume "DenseNGCNLayer_forward self adj features keep = Inr Y"
  then obtain P D Z where
    1: "torch_mm features (weight_matrix self) = Inr P" and
    2: "dropout P (dropout_rate self) (training self) keep = Inr D" and
    3: "repeated (nat (iterations self - 1)) (propagation_step adj) D = Inr Z" and
    4: "tensor_add Z (bias self) = Inr Y"
    unfolding eq by (auto simp add: and_then_eq_Inr)
  from 1 have P: "P = matmul features (weight_matrix self)"
    by (simp add: torch_mm_matmul split: if_splits)
  from repeated_propagation[OF 3]
  have "Z = (matmul (adjacency_dense adj (shape0 D)) ^^ nat (iterations self - 1)) D"
    by simp
  with 2 4 P
  show "\<exists>D. dropout (matmul features (weight_matrix self))
                       (dropout_rate self) (training self) keep = Inr D \<and>
                   tensor_add
                     ((matmul (adjacency_dense adj (shape0 D)) ^^ nat (iterations self - 1)) D)
                     (bias self) = Inr Y"
    by blast
qed

theorem C2_witness:
  "1 \<le> iterations ex_layer \<and>
   DenseNGCNLayer_forward ex_layer ex_adjacency ex_dense_features ex_keep =
     Inr (Matrix 2 [[3 / 2, - (3 / 2)], [2, - 2]])"
proof -
  have h: "1 \<le> iterations ex_layer"
    by (simp add: ex_layer_def)
  have "DenseNGCNLayer_forward ex_layer ex_adjacency ex_dense_features ex_keep =
           and_then (torch_mm ex_dense_features (weight_matrix ex_layer)) (\<lambda>P.
           and_then (dropout P (dropout_rate ex_layer) (training ex_layer) ex_keep) (\<lambda>D.
           and_then (repeated (nat (iterations ex_layer - 1)) (propagation_step ex_adjacency) D)
             (\<lambda>Z. tensor_add Z (bias ex_layer))))"
    using C2_dense_forward[OF h] by (rule conjunct1)
  also have "\<dots> = Inr (Matrix 2 [[3 / 2, - (3 / 2)], [2, - 2]])"
    by code_simp
  finally show ?thesis
    using h by simp
qed

text \<open>
  C6. For \<open>iterations = 1\<close> the loop of either layer runs zero times: the sparse layer
  returns \<open>ReLU(dropout(projection + bias))\<close>, the dense layer returns
  \<open>dropout(projection) + bias\<close>, and neither result depends on the adjacency matrix.
\<close>

theorem C6_single_iteration:
  assumes "iterations self = 1"
  shows "SparseNGCNLayer_forward self adj sfeatures keep =
           and_then (torch_max_dim1 (indices sfeatures)) (\<lambda>(r, c).
           and_then (spmm (indices sfeatures) (values sfeatures) (r + 1) (c + 1)
                       (weight_matrix self)) (\<lambda>P.
           and_then (tensor_add P (bias self)) (\<lambda>B.
           and_then (dropout B (dropout_rate self) (training self) keep) (\<lambda>D.
           Inr (relu D)))))
         \<and> DenseNGCNLayer_forward self adj dfeatures keep =
           and_then (torch_mm dfeatures (weight_matrix self)) (\<lambda>P.
           and_then (dropout P (dropout_rate self) (training self) keep) (\<lambda>D.
           tensor_add D (bias self)))
         \<and> SparseNGCNLayer_forward self adj sfeatures keep =
           SparseNGCNLayer_forward self adj' sfeatures keep
         \<and> DenseNGCNLayer_forward self adj dfeatures keep =
           DenseNGCNLayer_forward self adj' dfeatures keep"
  using assms
  by (simp add: SparseNGCNLayer_forward_def DenseNGCNLayer_forward_def py_range_def
      case_prod_unfold)

theorem C6_witness:
  "iterations (ex_layer\<lparr>iterations := 1\<rparr>) = 1 \<and>
   SparseNGCNLayer_forward (ex_layer\<lparr>iterations := 1\<rparr>) ex_adjacency ex_features ex_keep =
     Inr (Matrix 2 [[1 / 2, 0], [5 / 2, 0]]) \<and>
   DenseNGCNLayer_forward (ex_layer\<lparr>iterations := 1\<rparr>) ex_adjacency ex_dense_features ex_keep =
     Inr (Matrix 2 [[1 / 2, - (1 / 2)], [5 / 2, - (5 / 2)]])"
proof -
  have h: "iterations (ex_layer\<lparr>iterations := 1\<rparr>) = 1"
    by simp
  note c = C6_single_iteration[OF h, of ex_adjacency ex_features ex_keep ex_dense_features ex_adjacency]
  have "SparseNGCNLayer_forward (ex_layer\<lparr>iterations := 1\<rparr>) ex_adjacency ex_features ex_keep =
     Inr (Matrix 2 [[1 / 2, 0], [5 / 2, 0]])"
    unfolding c[THEN conjunct1] by code_simp
  moreover have "DenseNGCNLayer_forward (ex_layer\<lparr>iterations := 1\<rparr>) ex_adjacency ex_dense_features ex_keep =
     Inr (Matrix 2 [[1 / 2, - (1 / 2)], [5 / 2, - (5 / 2)]])"
    unfolding c[THEN conjunct2, THEN conjunct1] by code_simp
  ultimately show ?thesis
    using h by simp
qed

text \<open>
  C9. For every iteration count \<open>k \<le> 1\<close>, zero and negative counts included, the
  construction of either layer succeeds (the channel counts not being both zero) and keeps
  \<open>k\<close>, and \<open>forward\<close> of a layer whose count is \<open>k\<close> returns what it returns with
  the count 1.
\<close>

theorem C9_nonpositive_iterations:
  assumes "k \<le> 1" and "0 < in_ch + out_ch" and "iterations self = k"
  shows "(\<exists>L. SparseNGCNLayer_init in_ch out_ch k rate dev wdraw bdraw = Inr L \<and>
              iterations L = k)
       \<and> (\<exists>L. DenseNGCNLayer_init in_ch out_ch k rate dev wdraw bdraw = Inr L \<and>
              iterations L = k)
       \<and> SparseNGCNLayer_forward self adj sfeatures keep =
           SparseNGCNLayer_forward (self\<lparr>iterations := 1\<rparr>) adj sfeatures keep
       \<and> DenseNGCNLayer_forward self adj dfeatures keep =
           DenseNGCNLayer_forward (self\<lparr>iterations := 1\<rparr>) adj dfeatures keep"
proof -
  from assms have le: "iterations self \<le> 1"
    by simp
  from assms(2) show ?thesis
    using Sparse_forward_iterations_le_1[OF le, of adj sfeatures keep]
      Dense_forward_iterations_le_1[OF le, of adj dfeatures keep]
    by (auto simp add: SparseNGCNLayer_init_def DenseNGCNLayer_init_def xavier_uniform_def)
qed

theorem C9_witness:
  "(- 2 :: int) \<le> 1 \<and> 0 < (2 :: nat) + 2 \<and> iterations (ex_layer\<lparr>iterations := - 2\<rparr>) = - 2 \<and>
   (\<exists>L. SparseNGCNLayer_init 2 2 (- 2) (1 / 4) ''cpu'' ex_wdraw ex_bdraw = Inr L \<and>
        iterations L = - 2) \<and>
   (\<exists>L. DenseNGCNLayer_init 2 2 (- 2) (1 / 4) ''cpu'' ex_wdraw ex_bdraw = Inr L \<and>
        iterations L = - 2) \<and>
   SparseNGCNLayer_forward (ex_layer\<lparr>iterations := - 2\<rparr>) ex_adjacency ex_features ex_keep =
     Inr (Matrix 2 [[1 / 2, 0], [5 / 2, 0]]) \<and>
   DenseNGCNLayer_forward (ex_layer\<lparr>iterations := - 2\<rparr>) ex_adjacency ex_dense_features ex_keep =
     Inr (Matrix 2 [[1 / 2, - (1 / 2)], [5 / 2, - (5 / 2)]])"
proof -
  have h1: "(- 2 :: int) \<le> 1" and h2: "0 < (2 :: nat) + 2"
    and h3: "iterations (ex_layer\<lparr>iterations := - 2\<rparr>) = - 2"
    by simp_all
  note c = C9_nonpositive_iterations[OF h1 h2 h3,
      of "1 / 4" "''cpu''" ex_wdraw ex_bdraw ex_adjacency ex_features ex_keep ex_dense_features]
  have s: "SparseNGCNLayer_forward (ex_layer\<lparr>iterations := - 2, iterations := 1\<rparr>)
             ex_adjacency ex_features ex_keep = Inr (Matrix 2 [[1 / 2, 0], [5 / 2, 0]])"
    by code_simp
  have d: "DenseNGCNLayer_forward (ex_layer\<lparr>iterations := - 2, iterations := 1\<rparr>)
             ex_adjacency ex_dense_features ex_keep =
           Inr (Matrix 2 [[1 / 2, - (1 / 2)], [5 / 2, - (5 / 2)]])"
    by code_simp
  from c s d h3 show ?thesis
    by simp
qed

text \<open>
  C8. Outside training mode dropout passes its input through unchanged (for a rate in
  \<open>[0, 1]\<close>, the rates it accepts), and \<open>forward\<close> of either layer does not depend on
  the random draw: two calls with the same layer and the same inputs return the same
  result.
\<close>

theorem C8_eval_mode_deterministic:
  assumes "\<not> training self"
  shows "(0 \<le> dropout_rate self \<and> dropout_rate self \<le> 1 \<longrightarrow>
            dropout X (dropout_rate self) (training self) keep = Inr X)
       \<and> SparseNGCNLayer_forward self adj sfeatures keep =
           SparseNGCNLayer_forward self adj sfeatures keep'
       \<and> DenseNGCNLayer_forward self adj dfeatures keep =
           DenseNGCNLayer_forward self adj dfeatures keep'"
proof -
  have "dropout Y (dropout_rate self) (training self) keep =
        dropout Y (dropout_rate self) (training self) keep'" for Y
    using assms by (simp add: dropout_def)
  then show ?thesis
    using assms
    by (auto simp add: SparseNGCNLayer_forward_def DenseNGCNLayer_forward_def dropout_def)
qed

theorem C8_witness:
  "\<not> training ex_layer \<and>
   dropout ex_dense_features (dropout_rate ex_layer) (training ex_layer) ex_keep =
     Inr ex_dense_features \<and>
   SparseNGCNLayer_forward ex_layer ex_adjacency ex_features ex_keep =
     SparseNGCNLayer_forward ex_layer ex_adjacency ex_features ex_keep' \<and>
   DenseNGCNLayer_forward ex_layer ex_adjacency ex_dense_features ex_keep =
     DenseNGCNLayer_forward ex_layer ex_adjacency ex_dense_features ex_keep'"
proof -
  have h: "\<not> training ex_layer"
    by (simp add: ex_layer_def)
  have r: "0 \<le> dropout_rate ex_layer \<and> dropout_rate ex_layer \<le> 1"
    by (simp add: ex_layer_def)
  from C8_eval_mode_deterministic[OF h, of ex_dense_features ex_keep ex_adjacency ex_features
      ex_keep' ex_dense_features] r h
  show ?thesis
    by blast
qed

text \<open>
  C4, as the code has it. Neither constructor checks the dropout rate or the iteration
  count: with channel counts that are not both zero, construction succeeds for every rate
  and every count and stores them as given. A rate below 0 or above 1 is rejected only
  later: every call of \<open>forward\<close> on such a layer fails.
\<close>

theorem C4_construction_unchecked:
  assumes "0 < in_ch + out_ch"
  shows "(\<exists>L. SparseNGCNLayer_init in_ch out_ch k rate dev wdraw bdraw = Inr L \<and>
              iterations L = k \<and> dropout_rate L = rate)
       \<and> (\<exists>L. DenseNGCNLayer_init in_ch out_ch k rate dev wdraw bdraw = Inr L \<and>
              iterations L = k \<and> dropout_rate L = rate)
       \<and> (dropout_rate self < 0 \<or> 1 < dropout_rate self \<longrightarrow>
            isl (SparseNGCNLayer_forward self adj sfeatures keep) \<and>
            isl (DenseNGCNLayer_forward self adj dfeatures keep))"
proof -
  have "isl (and_then r (\<lambda>B. and_then (dropout B p t keep) f))" if "p < 0 \<or> 1 < p"
    for r :: "error + matrix" and p t and f :: "matrix \<Rightarrow> error + matrix"
    using that by (cases r) (auto simp add: dropout_def)
  note bad = this
  have s: "isl (SparseNGCNLayer_forward self adj sfeatures keep)"
    if "dropout_rate self < 0 \<or> 1 < dropout_rate self"
  proof (cases "torch_max_dim1 (indices sfeatures)")
    case (Inl e)
    then show ?thesis by (simp add: SparseNGCNLayer_forward_def)
  next
    case (Inr p)
    show ?thesis
    proof (cases "spmm (indices sfeatures) (values sfeatures) (fst p + 1) (snd p + 1)
                    (weight_matrix self)")
      case (Inl e)
      with Inr show ?thesis
        by (simp add: SparseNGCNLayer_forward_def case_prod_unfold)
    next
      case P: (Inr P)
      with Inr bad[OF that] show ?thesis
        by (simp add: SparseNGCNLayer_forward_def case_prod_unfold)
    qed
  qed
  have d: "isl (DenseNGCNLayer_forward self adj dfeatures keep)"
    if "dropout_rate self < 0 \<or> 1 < dropout_rate self"
    unfolding DenseNGCNLayer_forward_def by (rule bad[OF that])
  from assms s d show ?thesis
    by (auto simp add: SparseNGCNLayer_init_def DenseNGCNLayer_init_def xavier_uniform_def)
qed

theorem C4_witness:
  "0 < (2 :: nat) + 2 \<and>
   (\<exists>L. SparseNGCNLayer_init 2 2 0 (3 / 2) ''cpu'' ex_wdraw ex_bdraw = Inr L \<and>
        iterations L = 0 \<and> dropout_rate L = 3 / 2) \<and>
   (\<exists>L. DenseNGCNLayer_init 2 2 0 (3 / 2) ''cpu'' ex_wdraw ex_bdraw = Inr L \<and>
        iterations L = 0 \<and> dropout_rate L = 3 / 2) \<and>
   isl (SparseNGCNLayer_forward (ex_layer\<lparr>dropout_rate := 3 / 2\<rparr>) ex_adjacency ex_features
          ex_keep) \<and>
   isl (DenseNGCNLayer_forward (ex_layer\<lparr>dropout_rate := 3 / 2\<rparr>) ex_adjacency
          ex_dense_features ex_keep)"
proof -
  have h: "0 < (2 :: nat) + 2"
    by simp
  have r: "dropout_rate (ex_layer\<lparr>dropout_rate := 3 / 2\<rparr>) < 0 \<or>
           1 < dropout_rate (ex_layer\<lparr>dropout_rate := 3 / 2\<rparr>)"
    by simp
  from C4_construction_unchecked[OF h, of 0 "3 / 2" "''cpu''" ex_wdraw ex_bdraw
      "ex_layer\<lparr>dropout_rate := 3 / 2\<rparr>" ex_adjacency ex_features ex_keep ex_dense_features] r h
  show ?thesis
    by blast
qed

theorem C4_counterexample:
  "\<not> isl (SparseNGCNLayer_init 2 2 0 (3 / 2) ''cpu'' ex_wdraw ex_bdraw) \<and>
   \<not> isl (DenseNGCNLayer_init 2 2 0 (3 / 2) ''cpu'' ex_wdraw ex_bdraw)"
  by (simp add: SparseNGCNLayer_init_def DenseNGCNLayer_init_def xavier_uniform_def)

text \<open>
  C3. In the sparse layer's \<open>forward\<close> the extents passed to the first sparse multiply
  are one plus the largest row index and one plus the largest column index of
  \<open>features.indices\<close>, and \<open>forward\<close> fails with a dimension error whenever the
  inferred column extent differs from \<open>in_channels\<close>, the row count of the weight
  matrix.
\<close>

theorem C3_inferred_extents:
  assumes "indices features \<noteq> []" and "layer_shapes self"
  shows "torch_max_dim1 (indices features) =
           Inr (Max (fst ` set (indices features)), Max (snd ` set (indices features)))
       \<and> SparseNGCNLayer_forward self adj features keep =
           and_then (spmm (indices features) (values features)
                       (Max (fst ` set (indices features)) + 1)
                       (Max (snd ` set (indices features)) + 1)
                       (weight_matrix self)) (\<lambda>P.
           and_then (tensor_add P (bias self)) (\<lambda>B.
           and_then (dropout B (dropout_rate self) (training self) keep) (\<lambda>D.
           SparseNGCNLayer_loop (py_range (iterations self - 1)) adj (relu D))))
       \<and> (Max (snd ` set (indices features)) + 1 \<noteq> in_channels self \<longrightarrow>
            SparseNGCNLayer_forward self adj features keep = Inl DimensionMismatch)"
proof -
  note m = torch_max_dim1_Max[OF assms(1)]
  have w: "shape0 (weight_matrix self) = in_channels self"
    using assms(2) by (simp add: layer_shapes_def)
  have f: "SparseNGCNLayer_forward self adj features keep =
           and_then (spmm (indices features) (values features)
                       (Max (fst ` set (indices features)) + 1)
                       (Max (snd ` set (indices features)) + 1)
                       (weight_matrix self)) (\<lambda>P.
           and_then (tensor_add P (bias self)) (\<lambda>B.
           and_then (dropout B (dropout_rate self) (training self) keep) (\<lambda>D.
           SparseNGCNLayer_loop (py_range (iterations self - 1)) adj (relu D))))"
    by (simp add: SparseNGCNLayer_forward_def m)
  have "SparseNGCNLayer_forward self adj features keep = Inl DimensionMismatch"
    if "Max (snd ` set (indices features)) + 1 \<noteq> in_channels self"
    unfolding f using that w by (simp add: spmm_def)
  with m f show ?thesis
    by blast
qed

theorem C3_witness:
  "indices ex_features \<noteq> [] \<and>
   layer_shapes (ex_layer\<lparr>in_channels := 3,
                  weight_matrix := Matrix 2 [[0, - 1], [1, 0], [1, 1]]\<rparr>) \<and>
   torch_max_dim1 (indices ex_features) = Inr (1, 1) \<and>
   Max (snd ` set (indices ex_features)) + 1 \<noteq> 3 \<and>
   SparseNGCNLayer_forward
     (ex_layer\<lparr>in_channels := 3, weight_matrix := Matrix 2 [[0, - 1], [1, 0], [1, 1]]\<rparr>)
     ex_adjacency ex_features ex_keep = Inl DimensionMismatch"
proof -
  let ?L = "ex_layer\<lparr>in_channels := 3, weight_matrix := Matrix 2 [[0, - 1], [1, 0], [1, 1]]\<rparr>"
  have h1: "indices ex_features \<noteq> []"
    by (simp add: ex_features_def)
  have h2: "layer_shapes ?L"
    by (simp add: layer_shapes_def ex_layer_def shape0_def wf_matrix_def)
  have mr: "Max (fst ` set (indices ex_features)) = 1"
    and mc: "Max (snd ` set (indices ex_features)) = 1"
    by (simp_all add: ex_features_def)
  have ne: "Max (snd ` set (indices ex_features)) + 1 \<noteq> in_channels ?L"
    by (simp add: mc)
  from C3_inferred_extents[OF h1 h2, of ex_adjacency ex_keep] ne
  have "torch_max_dim1 (indices ex_features) =
           Inr (Max (fst ` set (indices ex_features)), Max (snd ` set (indices ex_features)))"
    and "SparseNGCNLayer_forward ?L ex_adjacency ex_features ex_keep = Inl DimensionMismatch"
    by blast+
  with h1 h2 show ?thesis
    by (simp add: mr mc)
qed

text \<open>
  C10. In both layers every step of the loop is the sparse multiply with row and column
  count taken from the current feature matrix, so it keeps the shape of that matrix
  whatever the adjacency's own indices are; the same holds for the whole loop, for every
  number of iterations. The result of \<open>forward\<close> has the row count fixed before the
  loop (one plus the largest row index of the features for the sparse layer, the row count
  of the features for the dense layer) and \<open>out_channels\<close> columns.
\<close>

theorem C10_shape_preserved:
  assumes "layer_shapes self"
  shows "(SparseNGCNLayer_loop (x # xs) adj X =
            and_then (spmm (indices adj) (values adj) (shape0 X) (shape0 X) X)
              (SparseNGCNLayer_loop xs adj))
       \<and> (DenseNGCNLayer_loop (x # xs) adj X =
            and_then (spmm (indices adj) (values adj) (shape0 X) (shape0 X) X)
              (DenseNGCNLayer_loop xs adj))
       \<and> (spmm (indices adj) (values adj) (shape0 X) (shape0 X) X = Inr X' \<longrightarrow>
            shape0 X' = shape0 X \<and> shape1 X' = shape1 X)
       \<and> (SparseNGCNLayer_loop ys adj X = Inr X' \<longrightarrow>
            shape0 X' = shape0 X \<and> shape1 X' = shape1 X)
       \<and> (DenseNGCNLayer_loop ys adj X = Inr X' \<longrightarrow>
            shape0 X' = shape0 X \<and> shape1 X' = shape1 X)
       \<and> (SparseNGCNLayer_forward self adj sfeatures keep = Inr Y \<longrightarrow>
            shape0 Y = Max (fst ` set (indices sfeatures)) + 1 \<and>
            shape1 Y = out_channels self)
       \<and> (DenseNGCNLayer_forward self adj dfeatures keep = Inr Z \<longrightarrow>
            shape0 Z = shape0 dfeatures \<and> shape1 Z = out_channels self)"
proof -
  have step: "shape0 X' = shape0 X \<and> shape1 X' = shape1 X"
    if "spmm (indices adj) (values adj) (shape0 X) (shape0 X) X = Inr X'"
    using spmm_shape[OF that] by simp
  have sl: "shape0 X' = shape0 X \<and> shape1 X' = shape1 X"
    if "SparseNGCNLayer_loop ys adj X = Inr X'"
    using repeated_shape[of "length ys" adj X X'] that
    by (simp add: Sparse_loop_repeated)
  have dl: "shape0 X' = shape0 X \<and> shape1 X' = shape1 X"
    if "DenseNGCNLayer_loop ys adj X = Inr X'"
    using repeated_shape[of "length ys" adj X X'] that
    by (simp add: Dense_loop_repeated)
  have sf: "shape0 Y = Max (fst ` set (indices sfeatures)) + 1 \<and> shape1 Y = out_channels self"
    if "SparseNGCNLayer_forward self adj sfeatures keep = Inr Y"
  proof -
    from that obtain r c P B D where
      1: "torch_max_dim1 (indices sfeatures) = Inr (r, c)" and
      2: "spmm (indices sfeatures) (values sfeatures) (r + 1) (c + 1) (weight_matrix self) = Inr P" and
      3: "tensor_add P (bias self) = Inr B" and
      4: "dropout B (dropout_rate self) (training self) keep = Inr D" and
      5: "repeated (nat (iterations self - 1)) (propagation_step adj) (relu D) = Inr Y"
      unfolding Sparse_forward_unfold by (auto simp add: and_then_eq_Inr)
    from 1 have "indices sfeatures \<noteq> []"
      by (auto simp add: torch_max_dim1_def)
    from torch_max_dim1_Max[OF this] 1 have r: "r = Max (fst ` set (indices sfeatures))"
      by simp
    from sparse_prelude_shape[OF assms 2 3 4] repeated_shape[OF 5] r
    show ?thesis
      by simp
  qed
  have df: "shape0 Z = shape0 dfeatures \<and> shape1 Z = out_channels self"
    if "DenseNGCNLayer_forward self adj dfeatures keep = Inr Z"
  proof -
    from that obtain P D W where
      1: "torch_mm dfeatures (weight_matrix self) = Inr P" and
      2: "dropout P (dropout_rate self) (training self) keep = Inr D" and
      3: "repeated (nat (iterations self - 1)) (propagation_step adj) D = Inr W" and
      4: "tensor_add W (bias self) = Inr Z"
      unfolding Dense_forward_unfold by (auto simp add: and_then_eq_Inr)
    from torch_mm_shape[OF 1] dropout_shape[OF 2] repeated_shape[OF 3] assms
    have W: "shape0 W = shape0 dfeatures" "shape1 W = out_channels self"
      by (simp_all add: layer_shapes_def)
    with assms have "shape0 (bias self) = 1" "shape1 (bias self) = shape1 W"
      by (simp_all add: layer_shapes_def)
    from tensor_add_bias_shape[OF 4 this] W show ?thesis
      by simp
  qed
  from step sl dl sf df show ?thesis
    by simp
qed

theorem C10_witness:
  "layer_shapes ex_layer \<and>
   SparseNGCNLayer_forward ex_layer ex_adjacency ex_features ex_keep =
     Inr (Matrix 2 [[3 / 2, 0], [2, 0]]) \<and>
   shape0 (Matrix 2 [[3 / 2, 0], [2, 0]]) = Max (fst ` set (indices ex_features)) + 1 \<and>
   shape1 (Matrix 2 [[3 / 2, 0], [2, 0]]) = out_channels ex_layer \<and>
   DenseNGCNLayer_forward ex_layer ex_adjacency ex_dense_features ex_keep =
     Inr (Matrix 2 [[3 / 2, - (3 / 2)], [2, - 2]]) \<and>
   shape0 (Matrix 2 [[3 / 2, - (3 / 2)], [2, - 2]]) = shape0 ex_dense_features \<and>
   shape1 (Matrix 2 [[3 / 2, - (3 / 2)], [2, - 2]]) = out_channels ex_layer"
proof -
  have h: "layer_shapes ex_layer"
    by (simp add: layer_shapes_def ex_layer_def shape0_def wf_matrix_def)
  have s: "SparseNGCNLayer_forward ex_layer ex_adjacency ex_features ex_keep =
     Inr (Matrix 2 [[3 / 2, 0], [2, 0]])"
    by code_simp
  have d: "DenseNGCNLayer_forward ex_layer ex_adjacency ex_dense_features ex_keep =
     Inr (Matrix 2 [[3 / 2, - (3 / 2)], [2, - 2]])"
    by code_simp
  from C10_shape_preserved[OF h, of 0 "[]" ex_adjacency ex_dense_features ex_dense_features "[]"
      ex_features ex_keep "Matrix 2 [[3 / 2, 0], [2, 0]]" ex_dense_features
      "Matrix 2 [[3 / 2, - (3 / 2)], [2, - 2]]"] s d h
  show ?thesis
    by blast
qed

text \<open>
  C7, as the code has it. The identity adjacency (indices the diagonal, every value 1) is
  a fixed point of the propagation step when it has as many nodes as the propagated matrix
  has rows: the step then returns the matrix it is given. The sparse layer takes that row
  count from the stored indices (one plus the largest row index of \<open>features.indices\<close>),
  the dense layer from \<open>features\<close> itself. With the identity adjacency of that size,
  for every iteration count \<open>k \<ge> 1\<close> either layer returns what it returns for
  \<open>iterations = 1\<close>.
\<close>

theorem C7_identity_adjacency:
  assumes "1 \<le> k" and "layer_shapes self"
  shows "(wf_matrix X \<longrightarrow>
            spmm (indices (identity_adjacency (shape0 X))) (values (identity_adjacency (shape0 X)))
              (shape0 X) (shape0 X) X = Inr X)
       \<and> SparseNGCNLayer_forward (self\<lparr>iterations := k\<rparr>)
           (identity_adjacency (Max (fst ` set (indices sfeatures)) + 1)) sfeatures keep =
         SparseNGCNLayer_forward (self\<lparr>iterations := 1\<rparr>)
           (identity_adjacency (Max (fst ` set (indices sfeatures)) + 1)) sfeatures keep
       \<and> DenseNGCNLayer_forward (self\<lparr>iterations := k\<rparr>)
           (identity_adjacency (shape0 dfeatures)) dfeatures keep =
         DenseNGCNLayer_forward (self\<lparr>iterations := 1\<rparr>)
           (identity_adjacency (shape0 dfeatures)) dfeatures keep"
proof (intro conjI impI)
  assume "wf_matrix X"
  from identity_step[OF this]
  show "spmm (indices (identity_adjacency (shape0 X))) (values (identity_adjacency (shape0 X)))
          (shape0 X) (shape0 X) X = Inr X"
    by (simp add: propagation_step_def)
next
  define N where "N = Max (fst ` set (indices sfeatures)) + 1"
  define C where "C = Max (snd ` set (indices sfeatures)) + 1"
  have "SparseNGCNLayer_forward (self\<lparr>iterations := k\<rparr>) (identity_adjacency N) sfeatures keep =
        SparseNGCNLayer_forward (self\<lparr>iterations := 1\<rparr>) (identity_adjacency N) sfeatures keep"
  proof (cases "indices sfeatures = []")
    case True
    then show ?thesis
      by (simp add: Sparse_forward_unfold torch_max_dim1_def)
  next
    case False
    have u: "SparseNGCNLayer_forward L (identity_adjacency N) sfeatures keep =
             and_then (spmm (indices sfeatures) (values sfeatures) N C (weight_matrix L)) (\<lambda>P.
             and_then (tensor_add P (bias L)) (\<lambda>B.
             and_then (dropout B (dropout_rate L) (training L) keep) (\<lambda>D.
             repeated (nat (iterations L - 1)) (propagation_step (identity_adjacency N))
               (relu D))))" for L
      unfolding Sparse_forward_unfold torch_max_dim1_Max[OF False] N_def C_def by simp
    have loop: "repeated n (propagation_step (identity_adjacency N)) (relu D) = Inr (relu D)"
      if "spmm (indices sfeatures) (values sfeatures) N C (weight_matrix self) = Inr P"
        and "tensor_add P (bias self) = Inr B"
        and "dropout B (dropout_rate self) (training self) keep = Inr D"
      for n P B D
    proof -
      from sparse_prelude_shape[OF assms(2) that]
      have "shape0 (relu D) = N" and "wf_matrix (relu D)"
        by simp_all
      with identity_repeated[of "relu D" n] show ?thesis
        by simp
    qed
    show ?thesis
      unfolding u
      by (auto simp add: and_then_def loop split: sum.splits)
  qed
  then show "SparseNGCNLayer_forward (self\<lparr>iterations := k\<rparr>)
           (identity_adjacency (Max (fst ` set (indices sfeatures)) + 1)) sfeatures keep =
         SparseNGCNLayer_forward (self\<lparr>iterations := 1\<rparr>)
           (identity_adjacency (Max (fst ` set (indices sfeatures)) + 1)) sfeatures keep"
    unfolding N_def .
next
  let ?N = "shape0 dfeatures"
  have loop: "repeated n (propagation_step (identity_adjacency ?N)) D = Inr D"
    if "torch_mm dfeatures (weight_matrix self) = Inr P"
      and "dropout P (dropout_rate self) (training self) keep = Inr D"
    for n P D
  proof -
    from torch_mm_shape[OF that(1)] dropout_shape[OF that(2)]
    have "shape0 D = ?N" and "wf_matrix D"
      by simp_all
    with identity_repeated[of D n] show ?thesis
      by simp
  qed
  show "DenseNGCNLayer_forward (self\<lparr>iterations := k\<rparr>) (identity_adjacency ?N) dfeatures keep =
        DenseNGCNLayer_forward (self\<lparr>iterations := 1\<rparr>) (identity_adjacency ?N) dfeatures keep"
    unfolding Dense_forward_unfold
    by (auto simp add: and_then_def loop split: sum.splits)
qed

theorem C7_witness:
  "(1 :: int) \<le> 4 \<and> layer_shapes ex_layer \<and> wf_matrix ex_dense_features \<and>
   spmm (indices (identity_adjacency 2)) (values (identity_adjacency 2)) 2 2 ex_dense_features =
     Inr ex_dense_features \<and>
   SparseNGCNLayer_forward (ex_layer\<lparr>iterations := 4\<rparr>) (identity_adjacency 2) ex_features
     ex_keep = Inr (Matrix 2 [[1 / 2, 0], [5 / 2, 0]]) \<and>
   DenseNGCNLayer_forward (ex_layer\<lparr>iterations := 4\<rparr>) (identity_adjacency 2)
     ex_dense_features ex_keep = Inr (Matrix 2 [[1 / 2, - (1 / 2)], [5 / 2, - (5 / 2)]])"
proof -
  have h1: "(1 :: int) \<le> 4"
    by simp
  have h2: "layer_shapes ex_layer"
    by (simp add: layer_shapes_def ex_layer_def shape0_def wf_matrix_def)
  have wf: "wf_matrix ex_dense_features"
    by (simp add: ex_dense_features_def wf_matrix_def)
  have n: "Max (fst ` set (indices ex_features)) + 1 = 2" "shape0 ex_dense_features = 2"
    by (simp_all add: ex_features_def ex_dense_features_def shape0_def)
  have s: "SparseNGCNLayer_forward (ex_layer\<lparr>iterations := 1\<rparr>) (identity_adjacency 2)
             ex_features ex_keep = Inr (Matrix 2 [[1 / 2, 0], [5 / 2, 0]])"
    by code_simp
  have d: "DenseNGCNLayer_forward (ex_layer\<lparr>iterations := 1\<rparr>) (identity_adjacency 2)
             ex_dense_features ex_keep = Inr (Matrix 2 [[1 / 2, - (1 / 2)], [5 / 2, - (5 / 2)]])"
    by code_simp
  note c = C7_identity_adjacency[OF h1 h2, of ex_dense_features ex_features ex_keep
      ex_dense_features, unfolded n]
  from c wf h1 h2 s d show ?thesis
    by simp
qed

text \<open>
  The identity adjacency of the graph need not have that size. For a graph of three nodes
  whose last node has no stored feature, the sparse layer infers two rows: with the
  \<open>3 \<times> 3\<close> identity it returns for \<open>iterations = 1\<close>, and for
  \<open>iterations = 2\<close> the first step selects row 2 of a matrix of two rows and fails.
\<close>

theorem C7_counterexample:
  "to_dense (indices ex_features) (values ex_features) 3 2 = ex_tall_dense \<and>
   SparseNGCNLayer_forward (ex_layer\<lparr>iterations := 1\<rparr>) (identity_adjacency 3) ex_features
     ex_keep = Inr (Matrix 2 [[1 / 2, 0], [5 / 2, 0]]) \<and>
   SparseNGCNLayer_forward (ex_layer\<lparr>iterations := 2\<rparr>) (identity_adjacency 3) ex_features
     ex_keep = Inl IndexOutOfRange"
  by code_simp

text \<open>
  C5, as the code has it. Take a sparse feature matrix with at least one stored entry and
  as many values as index pairs, and the dense matrix it stands for with the extents the
  sparse layer infers (one plus the largest stored row index and column index, so that the
  last row and the last column of the dense matrix hold a stored entry). With the same
  adjacency, the same parameters and dropout disabled, the two layers compute the same
  projection and run the same loop; they differ only in the order of the other operations:
  the sparse layer adds the bias and applies ReLU before the loop, the dense layer applies
  no ReLU and adds the bias after it. The two loops are the same function: each step
  left-multiplies the current matrix by the adjacency, with the row count of the current
  matrix as both dimensions.
\<close>

theorem C5_sparse_dense_asymmetry:
  assumes "indices sfeatures \<noteq> []"
    and "length (values sfeatures) = length (indices sfeatures)"
    and "dfeatures = to_dense (indices sfeatures) (values sfeatures)
                       (Max (fst ` set (indices sfeatures)) + 1)
                       (Max (snd ` set (indices sfeatures)) + 1)"
    and "dropout_rate self = 0 \<or>
           (\<not> training self \<and> 0 \<le> dropout_rate self \<and> dropout_rate self \<le> 1)"
  shows "SparseNGCNLayer_forward self adj sfeatures keep =
           and_then (torch_mm dfeatures (weight_matrix self)) (\<lambda>P.
           and_then (tensor_add P (bias self)) (\<lambda>B.
           repeated (nat (iterations self - 1)) (propagation_step adj) (relu B)))
       \<and> DenseNGCNLayer_forward self adj dfeatures keep' =
           and_then (torch_mm dfeatures (weight_matrix self)) (\<lambda>P.
           and_then (repeated (nat (iterations self - 1)) (propagation_step adj) P) (\<lambda>Z.
           tensor_add Z (bias self)))
       \<and> SparseNGCNLayer_loop xs adj X = DenseNGCNLayer_loop xs adj X
       \<and> SparseNGCNLayer_loop (x # xs) adj X =
           and_then (spmm (indices adj) (values adj) (shape0 X) (shape0 X) X)
             (DenseNGCNLayer_loop xs adj)
       \<and> (spmm (indices adj) (values adj) (shape0 X) (shape0 X) X = Inr X' \<longrightarrow>
            X' = matmul (adjacency_dense adj (shape0 X)) X)"
proof -
  have drop: "dropout Y (dropout_rate self) (training self) k = Inr Y" for Y k
    using assms(4) by (auto simp add: dropout_def)
  have proj: "spmm (indices sfeatures) (values sfeatures)
                (Max (fst ` set (indices sfeatures)) + 1)
                (Max (snd ` set (indices sfeatures)) + 1) (weight_matrix self) =
              torch_mm dfeatures (weight_matrix self)"
    unfolding assms(3) by (rule spmm_to_dense_torch_mm[OF assms(1) assms(2)])
  have s: "SparseNGCNLayer_forward self adj sfeatures keep =
           and_then (torch_mm dfeatures (weight_matrix self)) (\<lambda>P.
           and_then (tensor_add P (bias self)) (\<lambda>B.
           repeated (nat (iterations self - 1)) (propagation_step adj) (relu B)))"
    unfolding Sparse_forward_unfold torch_max_dim1_Max[OF assms(1)] and_then_Inr prod.case proj
    by (simp add: drop)
  have d: "DenseNGCNLayer_forward self adj dfeatures keep' =
           and_then (torch_mm dfeatures (weight_matrix self)) (\<lambda>P.
           and_then (repeated (nat (iterations self - 1)) (propagation_step adj) P) (\<lambda>Z.
           tensor_add Z (bias self)))"
    unfolding Dense_forward_unfold by (simp add: drop)
  have l: "SparseNGCNLayer_loop ys adj Y = DenseNGCNLayer_loop ys adj Y" for ys Y
    by (simp add: Sparse_loop_repeated Dense_loop_repeated)
  have l': "SparseNGCNLayer_loop (x # xs) adj X =
           and_then (spmm (indices adj) (values adj) (shape0 X) (shape0 X) X)
             (DenseNGCNLayer_loop xs adj)"
    using l by (simp add: fun_eq_iff[symmetric] ext)
  have m: "X' = matmul (adjacency_dense adj (shape0 X)) X"
    if "spmm (indices adj) (values adj) (shape0 X) (shape0 X) X = Inr X'"
    using propagation_step_matmul[of adj X X'] that by (simp add: propagation_step_def)
  from s d l l' m show ?thesis
    by blast
qed

theorem C5_witness:
  "indices ex_features \<noteq> [] \<and>
   length (values ex_features) = length (indices ex_features) \<and>
   ex_dense_features = to_dense (indices ex_features) (values ex_features)
                         (Max (fst ` set (indices ex_features)) + 1)
                         (Max (snd ` set (indices ex_features)) + 1) \<and>
   \<not> training ex_layer \<and> 0 \<le> dropout_rate ex_layer \<and> dropout_rate ex_layer \<le> 1 \<and>
   SparseNGCNLayer_forward ex_layer ex_adjacency ex_features ex_keep =
     Inr (Matrix 2 [[3 / 2, 0], [2, 0]]) \<and>
   DenseNGCNLayer_forward ex_layer ex_adjacency ex_dense_features ex_keep' =
     Inr (Matrix 2 [[3 / 2, - (3 / 2)], [2, - 2]])"
proof -
  have h1: "indices ex_features \<noteq> []"
    and h2: "length (values ex_features) = length (indices ex_features)"
    by (simp_all add: ex_features_def)
  have h3: "ex_dense_features = to_dense (indices ex_features) (values ex_features)
                         (Max (fst ` set (indices ex_features)) + 1)
                         (Max (snd ` set (indices ex_features)) + 1)"
    by code_simp
  have r: "\<not> training ex_layer \<and> 0 \<le> dropout_rate ex_layer \<and> dropout_rate ex_layer \<le> 1"
    by (simp add: ex_layer_def)
  then have h4: "dropout_rate ex_layer = 0 \<or>
           (\<not> training ex_layer \<and> 0 \<le> dropout_rate ex_layer \<and> dropout_rate ex_layer \<le> 1)"
    by simp
  note c = C5_sparse_dense_asymmetry[OF h1 h2 h3 h4, of ex_adjacency ex_keep ex_keep']
  have s: "and_then (torch_mm ex_dense_features (weight_matrix ex_layer)) (\<lambda>P.
           and_then (tensor_add P (bias ex_layer)) (\<lambda>B.
           repeated (nat (iterations ex_layer - 1)) (propagation_step ex_adjacency) (relu B))) =
           Inr (Matrix 2 [[3 / 2, 0], [2, 0]])"
    by code_simp
  have d: "and_then (torch_mm ex_dense_features (weight_matrix ex_layer)) (\<lambda>P.
           and_then (repeated (nat (iterations ex_layer - 1)) (propagation_step ex_adjacency) P)
             (\<lambda>Z. tensor_add Z (bias ex_layer))) =
           Inr (Matrix 2 [[3 / 2, - (3 / 2)], [2, - 2]])"
    by code_simp
  from c s d h1 h2 h3 r show ?thesis
    by simp
qed

text \<open>
  Without the condition on the extents the two layers differ by more than the order of
  the operations. The matrix \<open>[[1, 0], [0, 0]]\<close> has no stored entry in its last
  column: the sparse layer infers one column and fails on the \<open>2 \<times> 2\<close> weight matrix,
  while the dense layer returns. The matrix \<open>[[1, 0], [3, 2], [0, 0]]\<close> has no stored
  entry in its last row: the sparse layer returns two rows, the dense layer three.
\<close>

theorem C5_counterexample:
  "to_dense (indices ex_corner_features) (values ex_corner_features) 2 2 = ex_corner_dense \<and>
   \<not> training ex_layer \<and>
   SparseNGCNLayer_forward ex_layer ex_adjacency ex_corner_features ex_keep =
     Inl DimensionMismatch \<and>
   DenseNGCNLayer_forward ex_layer ex_adjacency ex_corner_dense ex_keep =
     Inr (Matrix 2 [[1 / 2, 0], [1 / 2, 1 / 4]]) \<and>
   to_dense (indices ex_features) (values ex_features) 3 2 = ex_tall_dense \<and>
   SparseNGCNLayer_forward (ex_layer\<lparr>iterations := 1\<rparr>) ex_adjacency ex_features ex_keep =
     Inr (Matrix 2 [[1 / 2, 0], [5 / 2, 0]]) \<and>
   DenseNGCNLayer_forward (ex_layer\<lparr>iterations := 1\<rparr>) ex_adjacency ex_tall_dense ex_keep =
     Inr (Matrix 2 [[1 / 2, - (1 / 2)], [5 / 2, - (5 / 2)], [1 / 2, 1 / 2]])"
  by code_simp

end
